theory Spec2Isabelle
  imports Complex_Main
begin

section \<open>The generic filtered-list controller of \<^verbatim>\<open>useBackendFilters\<close>\<close>

text \<open>
  The hook \<^verbatim>\<open>useBackendFilters\<close> keeps its state in React state cells, changes it in
  event handlers, and reacts to changes in effects that are keyed on dependency lists.
  The model keeps one record for the state cells, one function per handler, one
  predicate per effect saying when it runs, and splits the asynchronous
  \<^verbatim>\<open>fetchData\<close> at its \<^verbatim>\<open>await\<close>: what it does before (the busy flags), the
  query it composes, and what it does with the response.
\<close>

subsection \<open>JavaScript helpers\<close>

text \<open>
  A \<open>char\<close> stands for a code unit below 256, so a \<open>string\<close> is a JavaScript string of
  such code units. Among them \<^verbatim>\<open>String.prototype.trim\<close> strips tab, line feed,
  vertical tab, form feed, carriage return, space and the no-break space U+00A0; the
  white space above U+00FF is outside these strings.
\<close>

definition is_space :: "char \<Rightarrow> bool" where
  "is_space c =
     (c \<in> set [CHR 0x09, CHR 0x0A, CHR 0x0B, CHR 0x0C, CHR 0x0D, CHR 0x20, CHR 0xA0])"

definition trim :: "string \<Rightarrow> string" where
  "trim s = rev (dropWhile is_space (rev (dropWhile is_space s)))"

text \<open>A JavaScript string is truthy when it is not empty.\<close>

definition truthy :: "string \<Rightarrow> bool" where
  "truthy s = (s \<noteq> [])"

text \<open>
  The numbers \<^verbatim>\<open>goToPage\<close> computes with: integers, and the three values a division
  by zero produces.
\<close>

datatype jsnum = Fin int | PosInf | NegInf | NaN

text \<open>\<^verbatim>\<open>Math.ceil(a / b)\<close> for integers \<open>a\<close> and \<open>b\<close>.\<close>

definition js_ceil_div :: "int \<Rightarrow> int \<Rightarrow> jsnum" where
  "js_ceil_div a b =
     (if b = 0 then (if 0 < a then PosInf else if a < 0 then NegInf else NaN)
      else Fin (- ((- a) div b)))"

text \<open>\<^verbatim>\<open>x - 1\<close>.\<close>

fun js_minus1 :: "jsnum \<Rightarrow> jsnum" where
  "js_minus1 (Fin m) = Fin (m - 1)"
| "js_minus1 x = x"

text \<open>\<^verbatim>\<open>Math.min(page, x)\<close> for an integer \<open>page\<close>.\<close>

fun js_min :: "int \<Rightarrow> jsnum \<Rightarrow> jsnum" where
  "js_min page (Fin m) = Fin (min page m)"
| "js_min page PosInf = Fin page"
| "js_min page NegInf = NegInf"
| "js_min page NaN = NaN"

text \<open>\<^verbatim>\<open>Math.max(0, x)\<close>.\<close>

fun js_max0 :: "jsnum \<Rightarrow> jsnum" where
  "js_max0 (Fin v) = Fin (max 0 v)"
| "js_max0 PosInf = PosInf"
| "js_max0 NegInf = Fin 0"
| "js_max0 NaN = NaN"

subsection \<open>The state cells\<close>

datatype sort_order = Asc | Desc

text \<open>
  One field per \<^verbatim>\<open>useState\<close> cell of the hook; \<open>debouncedSearchTerm\<close> is the cell of
  \<^verbatim>\<open>useDebounce(searchTerm, 300)\<close>. Rows are opaque (\<open>'r\<close>).
\<close>

record 'r filter_state =
  data :: "'r list"
  loading :: bool
  isFirstLoad :: bool
  paginationLoading :: bool
  searchTerm :: string
  debouncedSearchTerm :: string
  isSearchActive :: bool
  activeFilters :: "string list"
  sortBy :: string
  sortOrder :: sort_order
  totalCount :: int
  currentPage :: int
  allDataLoaded :: bool
  pageSize :: int

text \<open>
  The initial values of the cells. \<^verbatim>\<open>a || b\<close> on strings and numbers takes \<open>b\<close> when
  \<open>a\<close> is missing, empty or zero.
\<close>

definition or_string :: "string option \<Rightarrow> string \<Rightarrow> string" where
  "or_string a b = (case a of None \<Rightarrow> b | Some s \<Rightarrow> if truthy s then s else b)"

definition or_number :: "int option \<Rightarrow> int \<Rightarrow> int" where
  "or_number a b = (case a of None \<Rightarrow> b | Some n \<Rightarrow> if n \<noteq> 0 then n else b)"

definition initial_state ::
  "string option \<Rightarrow> int option \<Rightarrow> int option \<Rightarrow> string list option \<Rightarrow> string option
     \<Rightarrow> 'r filter_state" where
  "initial_state defaultSort configPageSize optionsPageSize initialFilters initialSearchTerm =
     \<lparr> data = [], loading = True, isFirstLoad = True, paginationLoading = False,
       searchTerm = or_string initialSearchTerm [],
       debouncedSearchTerm = or_string initialSearchTerm [],
       isSearchActive = False,
       activeFilters = (case initialFilters of None \<Rightarrow> [] | Some fs \<Rightarrow> fs),
       sortBy = or_string defaultSort ''created_at'',
       sortOrder = Desc, totalCount = 0, currentPage = 0, allDataLoaded = False,
       pageSize = or_number optionsPageSize (or_number configPageSize 50) \<rparr>"

subsection \<open>The handlers\<close>

definition loadMore :: "'r filter_state \<Rightarrow> 'r filter_state" where
  "loadMore s =
     (if \<not> allDataLoaded s \<and> \<not> loading s then s\<lparr>currentPage := currentPage s + 1\<rparr> else s)"

definition resetPagination :: "'r filter_state \<Rightarrow> 'r filter_state" where
  "resetPagination s = s\<lparr>currentPage := 0, allDataLoaded := False\<rparr>"

definition maxPage :: "'r filter_state \<Rightarrow> jsnum" where
  "maxPage s = js_minus1 (js_ceil_div (totalCount s) (pageSize s))"

definition validPage :: "int \<Rightarrow> 'r filter_state \<Rightarrow> jsnum" where
  "validPage page s = js_max0 (js_min page (maxPage s))"

text \<open>
  \<open>validPage\<close> is not a number only when \<open>totalCount\<close> and \<open>pageSize\<close> are both zero, and
  then the guard \<^verbatim>\<open>totalCount > 0\<close> fails: the last branch of the \<open>case\<close> is never taken.
\<close>

definition goToPage :: "int \<Rightarrow> 'r filter_state \<Rightarrow> 'r filter_state" where
  "goToPage page s =
     (if validPage page s \<noteq> Fin (currentPage s) \<and> 0 < totalCount s
      then (case validPage page s of
              Fin v \<Rightarrow> s\<lparr>currentPage := v, allDataLoaded := False\<rparr>
            | _ \<Rightarrow> s)
      else s)"

definition setPageSizeWithReset :: "int \<Rightarrow> 'r filter_state \<Rightarrow> 'r filter_state" where
  "setPageSizeWithReset newPageSize s =
     s\<lparr>currentPage := 0, allDataLoaded := False, pageSize := newPageSize\<rparr>"

definition setSearchTerm :: "string \<Rightarrow> 'r filter_state \<Rightarrow> 'r filter_state" where
  "setSearchTerm t s = s\<lparr>searchTerm := t\<rparr>"

text \<open>The timer of \<^verbatim>\<open>useDebounce\<close> firing: the debounced cell takes the current term.\<close>

definition debounce_fires :: "'r filter_state \<Rightarrow> 'r filter_state" where
  "debounce_fires s = s\<lparr>debouncedSearchTerm := searchTerm s\<rparr>"

definition handleSearchApply :: "'r filter_state \<Rightarrow> 'r filter_state" where
  "handleSearchApply s = (if truthy (trim (searchTerm s)) then s\<lparr>isSearchActive := True\<rparr> else s)"

definition handleSearchClear :: "'r filter_state \<Rightarrow> 'r filter_state" where
  "handleSearchClear s = s\<lparr>searchTerm := [], isSearchActive := False\<rparr>"

definition toggleSortOrder :: "'r filter_state \<Rightarrow> 'r filter_state" where
  "toggleSortOrder s = s\<lparr>sortOrder := (if sortOrder s = Asc then Desc else Asc)\<rparr>"

text \<open>
  \<^verbatim>\<open>setActiveFilters\<close> takes the new list or a function of the previous one, and
  stores it only when its JSON text differs, which for lists of strings is when the
  lists differ.
\<close>

definition setActiveFiltersOptimized ::
  "(string list + (string list \<Rightarrow> string list)) \<Rightarrow> 'r filter_state \<Rightarrow> 'r filter_state" where
  "setActiveFiltersOptimized filters s =
     (let newFilters = (case filters of Inl fs \<Rightarrow> fs | Inr f \<Rightarrow> f (activeFilters s))
      in if newFilters \<noteq> activeFilters s then s\<lparr>activeFilters := newFilters\<rparr> else s)"

definition setSortByOptimized :: "string \<Rightarrow> 'r filter_state \<Rightarrow> 'r filter_state" where
  "setSortByOptimized sortKey s = s\<lparr>sortBy := sortKey\<rparr>"

text \<open>The callback of every realtime subscription of the hook.\<close>

definition realtime_notification :: "'r filter_state \<Rightarrow> 'r filter_state" where
  "realtime_notification s = resetPagination s"

subsection \<open>The effects\<close>

text \<open>
  An effect runs after a render in which one of its dependencies differs from the
  render before. The reset effect is keyed on the search, filter and sort cells (and on
  \<^verbatim>\<open>resetPagination\<close>, which never changes). The fetch effect is keyed on
  \<open>currentPage\<close> and on \<^verbatim>\<open>fetchData\<close>, a callback that is rebuilt when one of its own
  dependencies changes; of those, the configuration, the workspace, the profile and the
  toast function are fixed for a mounted hook.
\<close>

definition reset_deps ::
  "'r filter_state \<Rightarrow> bool \<times> string \<times> string list \<times> string \<times> sort_order" where
  "reset_deps s = (isSearchActive s, debouncedSearchTerm s, activeFilters s, sortBy s, sortOrder s)"

definition fetchData_deps ::
  "'r filter_state \<Rightarrow> bool \<times> string \<times> string list \<times> string \<times> sort_order \<times> int \<times> int" where
  "fetchData_deps s =
     (isSearchActive s, debouncedSearchTerm s, activeFilters s, sortBy s, sortOrder s,
      currentPage s, pageSize s)"

definition reset_effect_runs :: "'r filter_state \<Rightarrow> 'r filter_state \<Rightarrow> bool" where
  "reset_effect_runs before s = (reset_deps before \<noteq> reset_deps s)"

definition fetch_effect_deps ::
  "'r filter_state
     \<Rightarrow> int \<times> bool \<times> string \<times> string list \<times> string \<times> sort_order \<times> int \<times> int" where
  "fetch_effect_deps s = (currentPage s, fetchData_deps s)"

definition fetch_effect_runs :: "'r filter_state \<Rightarrow> 'r filter_state \<Rightarrow> bool" where
  "fetch_effect_runs before s = (fetch_effect_deps before \<noteq> fetch_effect_deps s)"

text \<open>The reset effect after the render of \<open>s\<close>, the render before having shown \<open>before\<close>.\<close>

definition reset_effect :: "'r filter_state \<Rightarrow> 'r filter_state \<Rightarrow> 'r filter_state" where
  "reset_effect before s = (if reset_effect_runs before s then resetPagination s else s)"

subsection \<open>Queries, the configuration and the signed-in user\<close>

text \<open>
  A query is what the calls on the backend's query builder have accumulated: the table,
  the selected columns and, in call order, one clause per call. \<open>Q_or\<close> carries the
  filter text passed to \<^verbatim>\<open>.or(...)\<close> as the code concatenates it; \<open>Q_or_foreign\<close> is
  \<^verbatim>\<open>.or(..., { foreignTable })\<close>; \<open>Q_order col asc\<close> is \<^verbatim>\<open>.order(col, { ascending })\<close>;
  \<open>Q_range\<close> is \<^verbatim>\<open>.range(from, to)\<close>. The values handed to \<^verbatim>\<open>.in(col, values)\<close>
  are strings or \<^verbatim>\<open>undefined\<close>.
\<close>

datatype jsval = Str string | Undefined

datatype clause =
    Q_eq string string
  | Q_in string "jsval list"
  | Q_or string
  | Q_or_foreign string string
  | Q_is_null string
  | Q_not_is_null string
  | Q_lt string string
  | Q_order string bool
  | Q_range int int

record query =
  from_table :: string
  select_cols :: string
  clauses :: "clause list"

definition add_clauses :: "clause list \<Rightarrow> query \<Rightarrow> query" where
  "add_clauses cs q = q\<lparr>clauses := clauses q @ cs\<rparr>"

text \<open>
  A filter option of a screen's configuration: its key and, when it has one, its
  \<^verbatim>\<open>queryBuilder\<close>, a function from the query to the query.
\<close>

record filter_option =
  opt_key :: string
  queryBuilder :: "(query \<Rightarrow> query) option"

record filter_config =
  tableName :: string
  searchFields :: "string list"
  filterOptions :: "filter_option list"
  defaultSort :: "string option"
  selectQuery :: "string option"
  configPageSize :: "int option"

record user_profile =
  profile_id :: string
  profile_role :: string

subsection \<open>The query translator of fetchData\<close>

definition role_keys :: "string list" where
  "role_keys = [''photographer'', ''cinematographer'', ''editor'', ''drone'']"

definition staff_status_keys :: "string list" where
  "staff_status_keys = [''staff_incomplete'', ''staff_complete'', ''no_staff'']"

definition roleFilters :: "string list \<Rightarrow> string list" where
  "roleFilters fs = filter (\<lambda>key. key \<in> set role_keys) fs"

definition roleMap :: "(string \<times> string) list" where
  "roleMap = [(''photographer'', ''Photographer''), (''cinematographer'', ''Cinematographer''),
              (''editor'', ''Editor''), (''drone'', ''Drone'')]"

text \<open>\<^verbatim>\<open>roleMap[key]\<close> for the role keys, each of which has an entry.\<close>

definition roleConditions :: "string list \<Rightarrow> jsval list" where
  "roleConditions fs =
     map (\<lambda>key. case map_of roleMap key of Some r \<Rightarrow> Str r | None \<Rightarrow> Undefined) (roleFilters fs)"

text \<open>\<^verbatim>\<open>[...new Set(xs)]\<close>: the first occurrence of every element, in order.\<close>

fun unique_from :: "'a list \<Rightarrow> 'a list \<Rightarrow> 'a list" where
  "unique_from seen [] = []"
| "unique_from seen (x # xs) =
     (if x \<in> set seen then unique_from seen xs else x # unique_from (x # seen) xs)"

definition unique :: "'a list \<Rightarrow> 'a list" where
  "unique xs = unique_from [] xs"

definition sentinel_id :: string where
  "sentinel_id = ''00000000-0000-0000-0000-000000000000''"

definition assignments_query :: "string \<Rightarrow> string list \<Rightarrow> query" where
  "assignments_query firm fs =
     \<lparr> from_table = ''event_staff_assignments'', select_cols = ''event_id'',
       clauses = [Q_eq ''firm_id'' firm, Q_in ''role'' (roleConditions fs)] \<rparr>"

text \<open>
  For the events table with a role filter, the event identifiers of the assignments in
  one of the roles, looked up first; \<open>lookup\<close> is the backend answering that query with
  an error or the \<^verbatim>\<open>event_id\<close> column (possibly \<^verbatim>\<open>null\<close>).
\<close>

definition eventIdsFilter ::
  "filter_config \<Rightarrow> string \<Rightarrow> (query \<Rightarrow> string + string list option) \<Rightarrow> string list
     \<Rightarrow> string + string list option" where
  "eventIdsFilter cfg firm lookup fs =
     (if tableName cfg = ''events'' \<and> 0 < length (roleFilters fs) then
        (case lookup (assignments_query firm fs) of
           Inl assignmentError \<Rightarrow> Inl assignmentError
         | Inr assignments \<Rightarrow>
             (let ids = unique (case assignments of None \<Rightarrow> [] | Some es \<Rightarrow> es)
              in Inr (Some (if length ids = 0 then [sentinel_id] else ids))))
      else Inr None)"

definition isAdmin :: "user_profile option \<Rightarrow> bool" where
  "isAdmin prof = (case prof of None \<Rightarrow> False | Some p \<Rightarrow> profile_role p = ''Admin'')"

text \<open>The role-based restriction: \<^verbatim>\<open>profile?.id\<close> is tested for truthiness.\<close>

definition scope_clauses :: "filter_config \<Rightarrow> user_profile option \<Rightarrow> string \<Rightarrow> clause list" where
  "scope_clauses cfg prof firm =
     (if tableName cfg = ''tasks'' then
        (if isAdmin prof then [Q_eq ''firm_id'' firm]
         else (case prof of
                 Some p \<Rightarrow> if truthy (profile_id p) then [Q_eq ''assigned_to'' (profile_id p)] else []
               | None \<Rightarrow> []))
      else if tableName cfg = ''event_staff_assignments'' then
        (if isAdmin prof then [Q_eq ''firm_id'' firm]
         else (case prof of
                 Some p \<Rightarrow>
                   if truthy (profile_id p)
                   then [Q_or (''staff_id.eq.'' @ profile_id p @ '',freelancer_id.eq.'' @ profile_id p)]
                   else []
               | None \<Rightarrow> []))
      else [Q_eq ''firm_id'' firm])"

definition event_id_clauses :: "string list option \<Rightarrow> clause list" where
  "event_id_clauses eventIds = (case eventIds of None \<Rightarrow> [] | Some ids \<Rightarrow> [Q_in ''id'' (map Str ids)])"

definition valid_or_unlimited :: "string \<Rightarrow> string" where
  "valid_or_unlimited today = ''valid_until.is.null,valid_until.gte.'' @ today"

text \<open>The status logic of quotations; \<open>today\<close> is the date part of the ISO time stamp.\<close>

definition quotation_clauses :: "filter_config \<Rightarrow> string \<Rightarrow> string list \<Rightarrow> clause list" where
  "quotation_clauses cfg today fs =
     (if tableName cfg = ''quotations'' then
        (let isConverted = ''converted'' \<in> set fs;
             isPending = ''pending'' \<in> set fs;
             isExpired = ''expired'' \<in> set fs;
             isValid = ''valid'' \<in> set fs
         in if isConverted then [Q_not_is_null ''converted_to_event'']
            else Q_is_null ''converted_to_event'' #
              (if isExpired then [Q_lt ''valid_until'' today]
               else if isValid \<or> isPending then [Q_or (valid_or_unlimited today)]
               else [Q_or (valid_or_unlimited today)]))
      else [])"

text \<open>\<^verbatim>\<open>.replace(/[,(\)]/g, ' ')\<close>.\<close>

definition replace_punct :: "string \<Rightarrow> string" where
  "replace_punct t = map (\<lambda>c. if c \<in> set '',()'' then CHR '' '' else c) t"

definition safeTerm :: "string \<Rightarrow> string" where
  "safeTerm debounced = replace_punct (trim debounced)"

text \<open>\<^verbatim>\<open>Array.prototype.join\<close>.\<close>

fun join :: "string \<Rightarrow> string list \<Rightarrow> string" where
  "join sep [] = []"
| "join sep [x] = x"
| "join sep (x # y # ys) = x @ sep @ join sep (y # ys)"

definition baseFields :: "filter_config \<Rightarrow> string \<Rightarrow> string list" where
  "baseFields cfg term = map (\<lambda>field. field @ ''.ilike.%'' @ term @ ''%'') (searchFields cfg)"

definition search_clauses :: "filter_config \<Rightarrow> bool \<Rightarrow> string \<Rightarrow> clause list" where
  "search_clauses cfg searchActive debounced =
     (if searchActive \<and> truthy (trim debounced) then
        (if 0 < length (baseFields cfg (safeTerm debounced))
         then [Q_or (join '','' (baseFields cfg (safeTerm debounced)))] else [])
        @ (if tableName cfg = ''events'' \<or> tableName cfg = ''quotations''
           then [Q_or_foreign (''name.ilike.%'' @ safeTerm debounced @ ''%'') ''clients''] else [])
      else [])"

definition otherFilters :: "string list \<Rightarrow> string list" where
  "otherFilters fs = filter (\<lambda>key. key \<notin> set (role_keys @ staff_status_keys)) fs"

text \<open>The static table from filter keys to a column and a value.\<close>

definition fieldMappings :: "(string \<times> string \<times> string) list" where
  "fieldMappings =
     [(''freelancer_photographer'', (''role'', ''Photographer'')),
      (''freelancer_cinematographer'', (''role'', ''Cinematographer'')),
      (''freelancer_drone_pilot'', (''role'', ''Drone Pilot'')),
      (''freelancer_editor'', (''role'', ''Editor'')),
      (''other_role'', (''role'', ''Other'')),
      (''photographer'', (''role'', ''Photographer'')),
      (''cinematographer'', (''role'', ''Cinematographer'')),
      (''editor'', (''role'', ''Editor'')),
      (''drone'', (''role'', ''Drone Pilot'')),
      (''credit'', (''entry_type'', ''Credit'')),
      (''debit'', (''entry_type'', ''Debit'')),
      (''assets'', (''entry_type'', ''Assets'')),
      (''cameras'', (''category'', ''Cameras'')),
      (''lenses'', (''category'', ''Lenses'')),
      (''lighting_equipment'', (''category'', ''Lighting Equipment'')),
      (''audio_equipment'', (''category'', ''Audio Equipment'')),
      (''drones'', (''category'', ''Drones'')),
      (''stabilizers'', (''category'', ''Stabilizers & Gimbals'')),
      (''tripods'', (''category'', ''Tripods & Stands'')),
      (''storage'', (''category'', ''Storage & Backup'')),
      (''computer'', (''category'', ''Computer & Software'')),
      (''office_equipment'', (''category'', ''Office Equipment'')),
      (''vehicles'', (''category'', ''Vehicles'')),
      (''studio_rent'', (''category'', ''Studio Rent'')),
      (''utilities'', (''category'', ''Utilities'')),
      (''marketing_expense'', (''category'', ''Marketing'')),
      (''insurance'', (''category'', ''Insurance'')),
      (''maintenance_expense'', (''category'', ''Maintenance'')),
      (''travel_expense'', (''category'', ''Travel'')),
      (''staff_salary'', (''category'', ''Staff Salary'')),
      (''freelancer_payment'', (''category'', ''Freelancer Payment'')),
      (''bank_charges'', (''category'', ''Bank Charges'')),
      (''taxes'', (''category'', ''Taxes'')),
      (''loan_emi'', (''category'', ''Loan & EMI'')),
      (''event_revenue'', (''category'', ''Event Revenue'')),
      (''other_income'', (''category'', ''Other Income'')),
      (''other_expense'', (''category'', ''Other Expense'')),
      (''custom'', (''category'', ''Custom'')),
      (''completed'', (''status'', ''Completed'')),
      (''in_progress'', (''status'', ''In Progress'')),
      (''pending'', (''status'', ''Pending'')),
      (''waiting_response'', (''status'', ''Waiting for Response'')),
      (''accepted'', (''status'', ''Accepted'')),
      (''declined'', (''status'', ''Declined'')),
      (''on_hold'', (''status'', ''On Hold'')),
      (''under_review'', (''status'', ''Under Review'')),
      (''reported'', (''status'', ''Reported'')),
      (''urgent_priority'', (''priority'', ''Urgent'')),
      (''medium_priority'', (''priority'', ''Medium'')),
      (''low_priority'', (''priority'', ''Low'')),
      (''photo_editing'', (''task_type'', ''Photo Editing'')),
      (''video_editing'', (''task_type'', ''Video Editing'')),
      (''other_task'', (''task_type'', ''Other'')),
      (''wedding'', (''event_type'', ''Wedding'')),
      (''pre_wedding'', (''event_type'', ''Pre-Wedding'')),
      (''ring_ceremony'', (''event_type'', ''Ring-Ceremony'')),
      (''maternity'', (''event_type'', ''Maternity Photography'')),
      (''others'', (''event_type'', ''Others'')),
      (''equipment'', (''category'', ''Equipment'')),
      (''travel'', (''category'', ''Travel'')),
      (''food'', (''category'', ''Food'')),
      (''salary'', (''category'', ''Salary'')),
      (''marketing'', (''category'', ''Marketing'')),
      (''maintenance'', (''category'', ''Maintenance'')),
      (''accommodation'', (''category'', ''Accommodation'')),
      (''software'', (''category'', ''Software'')),
      (''other'', (''category'', ''Other'')),
      (''cash_payment'', (''payment_method'', ''Cash'')),
      (''digital_payment'', (''payment_method'', ''Digital''))]"

text \<open>
  \<^verbatim>\<open>fieldMappings[filterKey]\<close> is a property read on an object literal: it finds the
  entries of the table and also the members every object inherits from
  \<^verbatim>\<open>Object.prototype\<close>. An inherited member is a function or an object, so it is truthy
  and its \<^verbatim>\<open>.field\<close> and \<^verbatim>\<open>.value\<close> are \<^verbatim>\<open>undefined\<close>.
\<close>

definition object_prototype_keys :: "string list" where
  "object_prototype_keys =
     [''constructor'', ''__defineGetter__'', ''__defineSetter__'', ''hasOwnProperty'',
      ''__lookupGetter__'', ''__lookupSetter__'', ''isPrototypeOf'', ''propertyIsEnumerable'',
      ''toString'', ''valueOf'', ''__proto__'', ''toLocaleString'']"

definition mapping_of :: "string \<Rightarrow> (jsval \<times> jsval) option" where
  "mapping_of filterKey =
     (case map_of fieldMappings filterKey of
        Some (field, v) \<Rightarrow> Some (Str field, Str v)
      | None \<Rightarrow>
          if filterKey \<in> set object_prototype_keys then Some (Undefined, Undefined) else None)"

text \<open>The property key a value is turned into when it indexes an object.\<close>

fun key_text :: "jsval \<Rightarrow> string" where
  "key_text (Str s) = s"
| "key_text Undefined = ''undefined''"

text \<open>
  \<open>filterGroups\<close> is an object keyed by column, read back in insertion order: an
  association list from the column to its values and its filter keys. No column is the
  name of an inherited member, so \<^verbatim>\<open>filterGroups[mapping.field]\<close> finds own entries only.
\<close>

type_synonym filter_groups = "(string \<times> jsval list \<times> string list) list"

definition push_group :: "string \<Rightarrow> jsval \<Rightarrow> string \<Rightarrow> filter_groups \<Rightarrow> filter_groups" where
  "push_group field v key groups =
     map (\<lambda>(f, vs, ks). if f = field then (f, vs @ [v], ks @ [key]) else (f, vs, ks))
       (if map_of groups field = None then groups @ [(field, [], [])] else groups)"

text \<open>The loop over \<open>otherFilters\<close>, on the pair of \<open>groupedFilters\<close> and \<open>filterGroups\<close>.\<close>

fun group_filters :: "string list \<Rightarrow> string list \<times> filter_groups \<Rightarrow> string list \<times> filter_groups" where
  "group_filters [] acc = acc"
| "group_filters (filterKey # rest) (grouped, groups) =
     group_filters rest
       (case mapping_of filterKey of
          Some (field, v) \<Rightarrow>
            (grouped @ [filterKey], push_group (key_text field) v filterKey groups)
        | None \<Rightarrow> (grouped, groups))"

definition groupedFilters :: "string list \<Rightarrow> string list" where
  "groupedFilters fs = fst (group_filters (otherFilters fs) ([], []))"

definition filterGroups :: "string list \<Rightarrow> filter_groups" where
  "filterGroups fs = snd (group_filters (otherFilters fs) ([], []))"

definition grouped_clauses :: "string list \<Rightarrow> clause list" where
  "grouped_clauses fs =
     map (\<lambda>(field, vs, ks). Q_in field vs)
       (filter (\<lambda>(field, vs, ks). 0 < length vs) (filterGroups fs))"

definition remainingFilters :: "string list \<Rightarrow> string list" where
  "remainingFilters fs = filter (\<lambda>key. key \<notin> set (groupedFilters fs)) (otherFilters fs)"

definition finalRemainingFilters :: "filter_config \<Rightarrow> string list \<Rightarrow> string list" where
  "finalRemainingFilters cfg fs =
     (if tableName cfg = ''quotations'' then
        (let hasConverted = ''converted'' \<in> set (remainingFilters fs);
             hasPending = ''pending'' \<in> set (remainingFilters fs);
             hasExpired = ''expired'' \<in> set (remainingFilters fs);
             hasValid = ''valid'' \<in> set (remainingFilters fs)
         in filter (\<lambda>key.
              if hasConverted \<and> key = ''pending'' then False
              else if hasPending \<and> key = ''converted'' then False
              else if hasExpired \<and> key = ''valid'' then False
              else if hasValid \<and> key = ''expired'' then False
              else True) (remainingFilters fs))
      else remainingFilters fs)"

definition apply_builder :: "filter_config \<Rightarrow> query \<Rightarrow> string \<Rightarrow> query" where
  "apply_builder cfg q filterKey =
     (case find (\<lambda>f. opt_key f = filterKey) (filterOptions cfg) of
        Some filterOption \<Rightarrow> (case queryBuilder filterOption of Some b \<Rightarrow> b q | None \<Rightarrow> q)
      | None \<Rightarrow> q)"

definition apply_builders :: "filter_config \<Rightarrow> string list \<Rightarrow> query \<Rightarrow> query" where
  "apply_builders cfg keys q = foldl (apply_builder cfg) q keys"

text \<open>
  The main query, composed from the cells of the closure \<open>c\<close> in the order of the code.
\<close>

definition build_query ::
  "filter_config \<Rightarrow> user_profile option \<Rightarrow> string \<Rightarrow> string \<Rightarrow> string list option
     \<Rightarrow> 'r filter_state \<Rightarrow> query" where
  "build_query cfg prof firm today eventIds c =
     (let q0 = \<lparr> from_table = tableName cfg, select_cols = or_string (selectQuery cfg) ''*'',
                 clauses = [] \<rparr>;
          q1 = add_clauses (scope_clauses cfg prof firm) q0;
          q2 = add_clauses (event_id_clauses eventIds) q1;
          q3 = add_clauses (quotation_clauses cfg today (activeFilters c)) q2;
          q4 = add_clauses (search_clauses cfg (isSearchActive c) (debouncedSearchTerm c)) q3;
          q5 = add_clauses (grouped_clauses (activeFilters c)) q4;
          q6 = apply_builders cfg (finalRemainingFilters cfg (activeFilters c)) q5;
          q7 = add_clauses [Q_order (sortBy c) (sortOrder c = Asc)] q6;
          from_row = currentPage c * pageSize c;
          to_row = from_row + pageSize c - 1
      in add_clauses [Q_range from_row to_row] q7)"

subsection \<open>fetchData around its await\<close>

text \<open>
  What is fixed for a mounted hook: the configuration, the signed-in user and workspace,
  the date, the backend (\<open>lookup\<close> answers the assignment query, \<open>backend\<close> the main query
  with an error or the rows and the exact count, each possibly \<^verbatim>\<open>null\<close>), and
  \<open>event_loaded\<close>, the object spread that marks a row of the events table as loaded.
\<close>

record 'r env =
  config :: filter_config
  profile :: "user_profile option"
  currentFirmId :: "string option"
  today :: string
  lookup :: "query \<Rightarrow> string + string list option"
  backend :: "query \<Rightarrow> string + ('r list option \<times> int option)"
  event_loaded :: "'r \<Rightarrow> 'r"

text \<open>What the awaits of one call produced: an error, or the rows and the count.\<close>

datatype 'r fetch_result = Failed string | Fetched "'r list option" "int option"

definition run_fetch :: "'r env \<Rightarrow> string \<Rightarrow> 'r filter_state \<Rightarrow> 'r fetch_result" where
  "run_fetch e firm c =
     (case eventIdsFilter (config e) firm (lookup e) (activeFilters c) of
        Inl assignmentError \<Rightarrow> Failed assignmentError
      | Inr eventIds \<Rightarrow>
          (case backend e (build_query (config e) (profile e) firm (today e) eventIds c) of
             Inl err \<Rightarrow> Failed err
           | Inr (result, count) \<Rightarrow> Fetched result count))"

text \<open>
  \<^verbatim>\<open>fetchData\<close> reads the cells of the render that built it (\<open>c\<close>, its closure) and
  writes through the setters, that is to the state current at that moment (\<open>s\<close>).
  Before the await it raises a busy flag. \<open>appendFlag\<close> is the parameter \<^verbatim>\<open>append\<close>.
\<close>

definition fetchData_begin ::
  "bool \<Rightarrow> bool \<Rightarrow> 'r filter_state \<Rightarrow> 'r filter_state \<Rightarrow> 'r filter_state" where
  "fetchData_begin appendFlag isPagination c s =
     (if isPagination then s\<lparr>paginationLoading := True\<rparr>
      else if \<not> appendFlag then
        (if isFirstLoad c \<and> length (data c) = 0 then s\<lparr>loading := True\<rparr> else s)
      else s)"

definition processResult :: "filter_config \<Rightarrow> ('r \<Rightarrow> 'r) \<Rightarrow> 'r list option \<Rightarrow> 'r list" where
  "processResult cfg loaded result =
     (let processedResult = (case result of None \<Rightarrow> [] | Some rows \<Rightarrow> rows)
      in if tableName cfg = ''events'' \<and> 0 < length processedResult
         then map loaded processedResult else processedResult)"

text \<open>
  After the await: on success the rows are stored (appended when \<open>appendFlag\<close>) with the
  count and the all-loaded flag; on an error the buffer is emptied unless \<open>appendFlag\<close>;
  in both cases the busy flag is lowered.
\<close>

definition fetchData_settle ::
  "'r env \<Rightarrow> bool \<Rightarrow> bool \<Rightarrow> 'r filter_state \<Rightarrow> 'r fetch_result
     \<Rightarrow> 'r filter_state \<Rightarrow> 'r filter_state" where
  "fetchData_settle e appendFlag isPagination c res s =
     (let s1 = (case res of
                  Fetched result count \<Rightarrow>
                    (let processedResult = processResult (config e) (event_loaded e) result;
                         s2 = s\<lparr>data := (if appendFlag then data s @ processedResult
                                           else processedResult),
                                totalCount := (case count of None \<Rightarrow> 0 | Some n \<Rightarrow> n),
                                allDataLoaded := (int (length processedResult) < pageSize c)\<rparr>
                     in if isFirstLoad c then s2\<lparr>isFirstLoad := False\<rparr> else s2)
                | Failed message \<Rightarrow> (if \<not> appendFlag then s\<lparr>data := []\<rparr> else s))
      in if isPagination then s1\<lparr>paginationLoading := False\<rparr> else s1\<lparr>loading := False\<rparr>)"

text \<open>The notification shown for a failed fetch.\<close>

definition toast_of :: "'r fetch_result \<Rightarrow> (string \<times> string) option" where
  "toast_of res =
     (case res of Failed message \<Rightarrow> Some (''Error loading data'', message) | _ \<Rightarrow> None)"

text \<open>
  One call of \<^verbatim>\<open>fetchData\<close> whose awaits are answered before anything else happens.
  Without a workspace it only lowers both busy flags.
\<close>

definition fetchData ::
  "'r env \<Rightarrow> bool \<Rightarrow> bool \<Rightarrow> 'r filter_state \<Rightarrow> 'r filter_state \<Rightarrow> 'r filter_state" where
  "fetchData e appendFlag isPagination c s =
     (case currentFirmId e of
        None \<Rightarrow> s\<lparr>loading := False, paginationLoading := False\<rparr>
      | Some firm \<Rightarrow>
          if \<not> truthy firm then s\<lparr>loading := False, paginationLoading := False\<rparr>
          else fetchData_settle e appendFlag isPagination c (run_fetch e firm c)
                 (fetchData_begin appendFlag isPagination c s))"

subsection \<open>Renders and effects in sequence\<close>

text \<open>
  The effects after the render of \<open>s\<close>, the render before having shown \<open>before\<close>: the
  reset effect queues its two updates, then the fetch effect calls
  \<^verbatim>\<open>fetchData(false, isPagination)\<close> with the cells of \<open>s\<close>. \<open>settle\<close> renders again
  until no effect runs, each fetch being answered before the next render; it gives
  \<open>None\<close> when the renders do not come to rest within \<open>n\<close> rounds.
\<close>

definition fetch_effect :: "'r env \<Rightarrow> 'r filter_state \<Rightarrow> 'r filter_state \<Rightarrow> 'r filter_state" where
  "fetch_effect e c s = fetchData e False (0 < currentPage c \<and> 0 < length (data c)) c s"

definition run_effects :: "'r env \<Rightarrow> 'r filter_state \<Rightarrow> 'r filter_state \<Rightarrow> 'r filter_state" where
  "run_effects e before s =
     (let s1 = reset_effect before s
      in if fetch_effect_runs before s then fetch_effect e s s1 else s1)"

fun settle :: "nat \<Rightarrow> 'r env \<Rightarrow> 'r filter_state \<Rightarrow> 'r filter_state \<Rightarrow> 'r filter_state option" where
  "settle 0 e before s = None"
| "settle (Suc n) e before s =
     (if \<not> reset_effect_runs before s \<and> \<not> fetch_effect_runs before s then Some s
      else settle n e s (run_effects e before s))"

text \<open>On mount every effect runs once.\<close>

definition mount :: "'r env \<Rightarrow> 'r filter_state \<Rightarrow> 'r filter_state" where
  "mount e s = fetch_effect e s (resetPagination s)"

subsection \<open>A table of 120 rows behind the controller\<close>

text \<open>
  The scenario of the paging properties: a backend whose table holds the rows \<open>0, ..., 119\<close>,
  all matching, answering the window \<^verbatim>\<open>.range(from, to)\<close> of a query (both ends
  included) and the total count; a configuration with page size 50; an administrator
  signed in to a workspace.
\<close>

fun range_of :: "clause list \<Rightarrow> (int \<times> int) option" where
  "range_of [] = None"
| "range_of (Q_range a b # cs) = (case range_of cs of None \<Rightarrow> Some (a, b) | Some r \<Rightarrow> Some r)"
| "range_of (c # cs) = range_of cs"

definition table_backend :: "'r list \<Rightarrow> query \<Rightarrow> string + ('r list option \<times> int option)" where
  "table_backend rows q =
     (case range_of (clauses q) of
        None \<Rightarrow> Inr (Some rows, Some (int (length rows)))
      | Some (a, b) \<Rightarrow>
          Inr (Some (take (nat (b - a + 1)) (drop (nat a) rows)), Some (int (length rows))))"

definition scenario_config :: filter_config where
  "scenario_config =
     \<lparr> tableName = ''clients'', searchFields = [''name''], filterOptions = [],
       defaultSort = None, selectQuery = None, configPageSize = Some 50 \<rparr>"

definition scenario_env :: "nat env" where
  "scenario_env =
     \<lparr> config = scenario_config,
       profile = Some \<lparr>profile_id = ''user-1'', profile_role = ''Admin''\<rparr>,
       currentFirmId = Some ''firm-1'', today = ''2024-01-01'',
       lookup = (\<lambda>q. Inr None), backend = table_backend [0..<120],
       event_loaded = (\<lambda>r. r) \<rparr>"

definition scenario_start :: "nat filter_state" where
  "scenario_start = initial_state None (configPageSize scenario_config) None None None"

text \<open>A handler called on a settled state, and the renders that follow.\<close>

definition after_handler ::
  "'r env \<Rightarrow> ('r filter_state \<Rightarrow> 'r filter_state) \<Rightarrow> 'r filter_state option
     \<Rightarrow> 'r filter_state option" where
  "after_handler e h so = (case so of None \<Rightarrow> None | Some s \<Rightarrow> settle 3 e s (h s))"

definition mounted :: "nat filter_state option" where
  "mounted = settle 3 scenario_env scenario_start (mount scenario_env scenario_start)"

definition more1 :: "nat filter_state option" where
  "more1 = after_handler scenario_env loadMore mounted"

definition more2 :: "nat filter_state option" where
  "more2 = after_handler scenario_env loadMore more1"

definition more3 :: "nat filter_state option" where
  "more3 = after_handler scenario_env loadMore more2"

text \<open>What a screen shows of a state: the rows, the page and the all-loaded flag.\<close>

definition summary :: "'r filter_state option \<Rightarrow> ('r list \<times> int \<times> bool) option" where
  "summary so = map_option (\<lambda>s. (data s, currentPage s, allDataLoaded s)) so"

text \<open>
  The first \<^verbatim>\<open>loadMore\<close> after the mount, its fetch begun and not yet answered.
\<close>

definition page1_in_flight :: "nat filter_state option" where
  "page1_in_flight =
     map_option (\<lambda>s. fetchData_begin False True (loadMore s) (loadMore s)) mounted"

text \<open>A second \<^verbatim>\<open>loadMore\<close> while that fetch is in flight, and whether it makes the fetch
  effect run.\<close>

definition page1_second_call :: "nat filter_state option" where
  "page1_second_call = map_option loadMore page1_in_flight"

definition second_call_fetches :: bool where
  "second_call_fetches =
     (case page1_in_flight of None \<Rightarrow> False | Some s \<Rightarrow> fetch_effect_runs s (loadMore s))"

text \<open>The number of rows in the buffer of a state.\<close>

definition buffer_length :: "'r filter_state option \<Rightarrow> nat option" where
  "buffer_length so = map_option (length \<circ> data) so"

text \<open>A state on page 3 with everything loaded and a pagination fetch in flight.\<close>

definition busy_page3 :: "nat filter_state" where
  "busy_page3 = scenario_start\<lparr>data := [150..<200], loading := False, isFirstLoad := False,
     paginationLoading := True, totalCount := 500, currentPage := 3, allDataLoaded := True\<rparr>"

text \<open>The render after the second \<^verbatim>\<open>loadMore\<close>, page 1 still in the buffer.\<close>

definition page2_render :: "nat filter_state" where
  "page2_render = scenario_start\<lparr>data := [50..<100], loading := False, isFirstLoad := False,
     totalCount := 120, currentPage := 2\<rparr>"

text \<open>A state on page 0 whose only page, of 20 rows, is loaded.\<close>

definition short_page0 :: "nat filter_state" where
  "short_page0 = scenario_start\<lparr>data := [0..<20], loading := False, isFirstLoad := False,
     totalCount := 20, allDataLoaded := True\<rparr>"

subsection \<open>Reading a query\<close>
















subsection \<open>Configurations and rows for the query translator\<close>






















definition search_state :: "nat filter_state" where
  "search_state =
     scenario_start\<lparr>searchTerm := ''John, (Doe)'', debouncedSearchTerm := ''John, (Doe)'',
       isSearchActive := True\<rparr>"

section \<open>Properties of the pagination controller\<close>

subsection \<open>Auxiliary facts\<close>

lemma js_ceil_div_ceiling:
  "b \<noteq> 0 \<Longrightarrow> js_ceil_div a b = Fin \<lceil>real_of_int a / real_of_int b\<rceil>"
  by (simp add: js_ceil_div_def ceiling_divide_eq_div)

lemma currentPage_fetchData [simp]:
  "currentPage (fetchData e appendFlag isPagination c s) = currentPage s"
  by (simp add: fetchData_def fetchData_settle_def fetchData_begin_def Let_def
      split: option.splits fetch_result.splits)

lemma range_of_snoc: "range_of (cs @ [Q_range a b]) = Some (a, b)"
  by (induction cs rule: range_of.induct) simp_all

lemma range_of_snoc2: "range_of (cs @ [c, Q_range a b]) = Some (a, b)"
  using range_of_snoc [of "cs @ [c]" a b] by simp

lemma range_of_build_query:
  "range_of (clauses (build_query cfg prof firm td ids c))
     = Some (currentPage c * pageSize c, currentPage c * pageSize c + pageSize c - 1)"
  by (simp add: build_query_def Let_def add_clauses_def range_of_snoc2)

lemma scenario_run_fetch:
  "run_fetch scenario_env firm c
     = Fetched (Some (take (nat (pageSize c)) (drop (nat (currentPage c * pageSize c)) [0..<120])))
         (Some 120)"
  by (simp add: run_fetch_def scenario_env_def eventIdsFilter_def scenario_config_def
        table_backend_def range_of_build_query)

lemma scenario_firm: "currentFirmId scenario_env = Some ''firm-1''"
  by (simp add: scenario_env_def)

lemma scenario_table: "tableName (config scenario_env) = ''clients''"
  by (simp add: scenario_env_def scenario_config_def)

lemma scenario_fetch_effect:
  "fetch_effect scenario_env c s =
     fetchData_settle scenario_env False (0 < currentPage c \<and> 0 < length (data c)) c
       (Fetched (Some (take (nat (pageSize c)) (drop (nat (currentPage c * pageSize c)) [0..<120])))
         (Some 120))
       (fetchData_begin False (0 < currentPage c \<and> 0 < length (data c)) c s)"
  by (simp add: fetch_effect_def fetchData_def scenario_run_fetch scenario_firm truthy_def)

lemma start_cells:
  "data scenario_start = []" "currentPage scenario_start = 0" "pageSize scenario_start = 50"
  "isFirstLoad scenario_start" "loading scenario_start" "\<not> allDataLoaded scenario_start"
  "\<not> paginationLoading scenario_start"
  by (simp_all add: scenario_start_def initial_state_def scenario_config_def or_number_def)

lemmas step_defs = after_handler_def loadMore_def scenario_fetch_effect numeral_3_eq_3
  reset_effect_runs_def fetch_effect_runs_def run_effects_def reset_effect_def
  reset_deps_def fetchData_deps_def fetch_effect_deps_def resetPagination_def
  fetchData_begin_def fetchData_settle_def Let_def processResult_def scenario_table start_cells

lemma mounted_eq:
  "mounted = Some (scenario_start\<lparr>data := [0..<50], loading := False, isFirstLoad := False,
      totalCount := 120\<rparr>)"
  unfolding mounted_def by (simp add: mount_def step_defs)

lemma more1_eq:
  "more1 = Some (scenario_start\<lparr>data := [50..<100], loading := False, isFirstLoad := False,
      paginationLoading := False, totalCount := 120, currentPage := 1\<rparr>)"
  unfolding more1_def mounted_eq by (simp add: step_defs)

lemma more2_eq:
  "more2 = Some (scenario_start\<lparr>data := [100..<120], loading := False, isFirstLoad := False,
      paginationLoading := False, totalCount := 120, currentPage := 2, allDataLoaded := True\<rparr>)"
  unfolding more2_def more1_eq by (simp add: step_defs)

lemma more3_eq: "more3 = more2"
  unfolding more3_def more2_eq by (simp add: step_defs)

lemma page1_in_flight_eq:
  "page1_in_flight = Some (scenario_start\<lparr>data := [0..<50], loading := False,
      isFirstLoad := False, paginationLoading := True, totalCount := 120, currentPage := 1\<rparr>)"
  unfolding page1_in_flight_def mounted_eq by (simp add: step_defs)

subsection \<open>Loading more\<close>

text \<open>
  C1, as the code has it. With page size 50 over 120 matching rows, the fetch of the mount
  loads the rows 0 to 49; the first \<^verbatim>\<open>loadMore()\<close> fetches page 1 (50 rows) and the
  second page 2 (20 rows), each fetch replacing the row buffer with the page it fetched
  (the buffer holds 50, 50 and 20 rows, never 120); \<open>allDataLoaded\<close> becomes true after
  the second call, and the third call changes nothing and fetches nothing.
\<close>

theorem three_loadMore_calls:
  "summary mounted = Some ([0..<50], 0, False)
   \<and> summary more1 = Some ([50..<100], 1, False)
   \<and> summary more2 = Some ([100..<120], 2, True)
   \<and> more3 = more2"
  by (simp add: more3_eq) (simp add: summary_def mounted_eq more1_eq more2_eq start_cells)

text \<open>
  C1 as stated fails: before the mount has fetched, \<^verbatim>\<open>loadMore()\<close> does nothing; after
  it, the first call leaves 50 rows in the buffer (not 100), the flag is already true
  after the second call, and the buffer holds 20 rows after the third (not 120).
\<close>

theorem three_loadMore_calls_do_not_accumulate:
  "loadMore scenario_start = scenario_start
   \<and> buffer_length more1 = Some 50
   \<and> map_option allDataLoaded more2 = Some True
   \<and> buffer_length more3 = Some 20"
  by (simp add: more3_eq) (simp add: buffer_length_def more1_eq more2_eq loadMore_def start_cells)

text \<open>
  C8, as the code has it. \<^verbatim>\<open>loadMore()\<close> advances the page, and so triggers a fetch,
  exactly when \<open>allDataLoaded\<close> is false and the flag \<open>loading\<close> is false; the flag
  \<open>paginationLoading\<close> plays no part in it.
\<close>

theorem loadMore_guard:
  "fetch_effect_runs s (loadMore s) = (\<not> allDataLoaded s \<and> \<not> loading s)
   \<and> currentPage (loadMore s) =
       (if \<not> allDataLoaded s \<and> \<not> loading s then currentPage s + 1 else currentPage s)
   \<and> loadMore (s\<lparr>paginationLoading := b\<rparr>) = (loadMore s)\<lparr>paginationLoading := b\<rparr>"
  by (simp add: loadMore_def fetch_effect_runs_def fetch_effect_deps_def fetchData_deps_def)

text \<open>
  C8 as stated fails: while the fetch of page 1 is in flight (\<open>paginationLoading\<close> is
  true), a second \<^verbatim>\<open>loadMore()\<close> advances to page 2 and triggers another fetch.
\<close>

theorem loadMore_during_pagination_load:
  "map_option paginationLoading page1_in_flight = Some True
   \<and> map_option loading page1_in_flight = Some False
   \<and> map_option currentPage page1_in_flight = Some 1
   \<and> map_option currentPage page1_second_call = Some 2
   \<and> second_call_fetches"
  by (simp add: page1_second_call_def second_call_fetches_def page1_in_flight_eq loadMore_def
      fetch_effect_runs_def fetch_effect_deps_def start_cells)

subsection \<open>The all-loaded flag\<close>

text \<open>
  C2. After every successful fetch, \<open>allDataLoaded\<close> is true if and only if the number
  of rows that fetch returned is strictly less than the page size it requested (the page
  size of the closure that composed the query), whatever the table, the flags of the
  call and the state the answer arrives in; a \<^verbatim>\<open>null\<close> result counts as no rows.
\<close>

theorem allDataLoaded_iff_short_page:
  "allDataLoaded (fetchData_settle e appendFlag isPagination c (Fetched (Some rows) count) s)
     = (int (length rows) < pageSize c)
   \<and> allDataLoaded (fetchData_settle e appendFlag isPagination c (Fetched None count) s)
     = (0 < pageSize c)
   \<and> (currentFirmId e = Some firm \<and> truthy firm
        \<and> run_fetch e firm c = Fetched (Some rows) count \<longrightarrow>
      allDataLoaded (fetchData e appendFlag isPagination c s) = (int (length rows) < pageSize c))"
  by (simp add: fetchData_def fetchData_settle_def processResult_def Let_def)

text \<open>
  The theorem of C2 on the table of 120 rows: the fetch of page 2 returns 20 rows for a
  page size of 50 and sets the flag; the fetch of page 0 returns 50 and does not.
\<close>

theorem allDataLoaded_iff_short_page_witness:
  "currentFirmId scenario_env = Some ''firm-1'' \<and> truthy ''firm-1''
   \<and> run_fetch scenario_env ''firm-1'' page2_render = Fetched (Some [100..<120]) (Some 120)
   \<and> pageSize page2_render = 50
   \<and> allDataLoaded (fetchData scenario_env False True page2_render page2_render)
   \<and> run_fetch scenario_env ''firm-1'' scenario_start = Fetched (Some [0..<50]) (Some 120)
   \<and> \<not> allDataLoaded (fetchData scenario_env False False scenario_start scenario_start)"
proof -
  have cells: "pageSize page2_render = 50" "currentPage page2_render = 2"
    by (simp_all add: page2_render_def start_cells)
  have f2: "run_fetch scenario_env ''firm-1'' page2_render
      = Fetched (Some [100..<120]) (Some 120)"
    by (simp add: scenario_run_fetch cells)
  have f0: "run_fetch scenario_env ''firm-1'' scenario_start = Fetched (Some [0..<50]) (Some 120)"
    by (simp add: scenario_run_fetch start_cells)
  have firm: "truthy ''firm-1''" by (simp add: truthy_def)
  have a: "allDataLoaded (fetchData scenario_env False True page2_render page2_render)"
    using allDataLoaded_iff_short_page
            [where e = scenario_env and firm = "''firm-1''" and c = page2_render
               and rows = "[100..<120]" and count = "Some 120" and appendFlag = False
               and isPagination = True and s = page2_render]
          scenario_firm firm f2
    by (simp add: cells)
  have b: "\<not> allDataLoaded (fetchData scenario_env False False scenario_start scenario_start)"
    using allDataLoaded_iff_short_page
            [where e = scenario_env and firm = "''firm-1''" and c = scenario_start
               and rows = "[0..<50]" and count = "Some 120" and appendFlag = False
               and isPagination = False and s = scenario_start]
          scenario_firm firm f0
    by (simp add: start_cells)
  show ?thesis using a b f0 f2 firm scenario_firm by (simp add: cells)
qed

subsection \<open>Going to a page\<close>

text \<open>
  C3. \<^verbatim>\<open>goToPage(n)\<close> clamps \<open>n\<close> into the interval from 0 to
  \<open>ceil(totalCount / pageSize) - 1\<close>: with a positive page size and a positive count the
  page it computes is \<open>max 0 (min n (ceil(totalCount / pageSize) - 1))\<close>, it lies in the
  interval, it is \<open>n\<close> itself when \<open>n\<close> lies there, and it is the page the state holds
  afterwards. Whenever the clamped page is the current page, \<^verbatim>\<open>goToPage\<close> changes no
  state, and neither the fetch effect nor the reset effect runs. With a count of zero
  nothing is changed either.
\<close>

theorem goToPage_clamps:
  "(0 < pageSize s \<and> 0 < totalCount s \<longrightarrow>
      (\<exists>v. validPage n s = Fin v
         \<and> 0 \<le> v \<and> v \<le> \<lceil>real_of_int (totalCount s) / real_of_int (pageSize s)\<rceil> - 1
         \<and> v = max 0 (min n (\<lceil>real_of_int (totalCount s) / real_of_int (pageSize s)\<rceil> - 1))
         \<and> (0 \<le> n \<and> n \<le> \<lceil>real_of_int (totalCount s) / real_of_int (pageSize s)\<rceil> - 1
              \<longrightarrow> v = n)
         \<and> currentPage (goToPage n s) = v))
   \<and> (validPage n s = Fin (currentPage s) \<longrightarrow>
        goToPage n s = s \<and> \<not> fetch_effect_runs s (goToPage n s)
        \<and> \<not> reset_effect_runs s (goToPage n s))
   \<and> (totalCount s = 0 \<longrightarrow> goToPage n s = s)"
proof (intro conjI impI)
  assume pos: "0 < pageSize s \<and> 0 < totalCount s"
  let ?m = "\<lceil>real_of_int (totalCount s) / real_of_int (pageSize s)\<rceil> - 1"
  have m: "maxPage s = Fin ?m"
    using pos by (simp add: maxPage_def js_ceil_div_ceiling)
  have "0 < real_of_int (totalCount s) / real_of_int (pageSize s)"
    using pos by simp
  then have m0: "0 \<le> ?m" by simp
  have v: "validPage n s = Fin (max 0 (min n ?m))"
    by (simp add: validPage_def m)
  have "currentPage (goToPage n s) = max 0 (min n ?m)"
    using pos by (simp add: goToPage_def v)
  with v m0 show "\<exists>v. validPage n s = Fin v
         \<and> 0 \<le> v \<and> v \<le> ?m \<and> v = max 0 (min n ?m) \<and> (0 \<le> n \<and> n \<le> ?m \<longrightarrow> v = n)
         \<and> currentPage (goToPage n s) = v"
    by auto
next
  assume "validPage n s = Fin (currentPage s)"
  then show same: "goToPage n s = s" by (simp add: goToPage_def)
  show "\<not> fetch_effect_runs s (goToPage n s)" by (simp add: same fetch_effect_runs_def)
  show "\<not> reset_effect_runs s (goToPage n s)" by (simp add: same reset_effect_runs_def)
next
  assume "totalCount s = 0"
  then show "goToPage n s = s" by (simp add: goToPage_def)
qed

text \<open>
  The theorem of C3 on the state of page 3 of 500 rows, 50 to the page: page 12 is clamped
  to page 9, and page 3 is the current page.
\<close>

theorem goToPage_clamps_witness:
  "0 < pageSize busy_page3 \<and> 0 < totalCount busy_page3
   \<and> validPage 12 busy_page3 = Fin 9 \<and> currentPage (goToPage 12 busy_page3) = 9
   \<and> validPage 3 busy_page3 = Fin (currentPage busy_page3)
   \<and> goToPage 3 busy_page3 = busy_page3
   \<and> \<not> fetch_effect_runs busy_page3 (goToPage 3 busy_page3)"
proof -
  have cells: "pageSize busy_page3 = 50" "totalCount busy_page3 = 500" "currentPage busy_page3 = 3"
    by (simp_all add: busy_page3_def start_cells)
  have v12: "validPage 12 busy_page3 = Fin 9" and v3: "validPage 3 busy_page3 = Fin 3"
    by (simp_all add: validPage_def maxPage_def js_ceil_div_def cells)
  have a: "currentPage (goToPage 12 busy_page3) = 9"
    using goToPage_clamps [of busy_page3 12] by (simp add: cells v12)
  have b: "goToPage 3 busy_page3 = busy_page3
      \<and> \<not> fetch_effect_runs busy_page3 (goToPage 3 busy_page3)"
    using goToPage_clamps [of busy_page3 3] by (auto simp: cells v3)
  show ?thesis using a b by (auto simp: cells v12 v3)
qed

subsection \<open>Resets\<close>

text \<open>
  C7. Every change of the sort key, the sort direction, the debounced search term, the
  search-active flag or the active filters makes the reset effect run, and after it
  \<open>currentPage\<close> is 0 and \<open>allDataLoaded\<close> is false, whatever the busy flags say (so also
  while a fetch is in flight, whose flags the reset leaves alone); the page is still 0 after
  the fetch effect of the same render. Toggling the sort direction is always such a
  change, and so is storing a different filter list.
\<close>

theorem filter_change_resets_pagination:
  "(sortBy s \<noteq> sortBy before \<or> sortOrder s \<noteq> sortOrder before
      \<or> debouncedSearchTerm s \<noteq> debouncedSearchTerm before
      \<or> isSearchActive s \<noteq> isSearchActive before
      \<or> activeFilters s \<noteq> activeFilters before
    \<longrightarrow> reset_effect_runs before s
        \<and> currentPage (reset_effect before s) = 0
        \<and> \<not> allDataLoaded (reset_effect before s)
        \<and> loading (reset_effect before s) = loading s
        \<and> paginationLoading (reset_effect before s) = paginationLoading s
        \<and> currentPage (run_effects e before s) = 0)
   \<and> currentPage (reset_effect before (toggleSortOrder before)) = 0
   \<and> \<not> allDataLoaded (reset_effect before (toggleSortOrder before))
   \<and> (fs \<noteq> activeFilters before \<longrightarrow>
        currentPage (reset_effect before (setActiveFiltersOptimized (Inl fs) before)) = 0
        \<and> \<not> allDataLoaded (reset_effect before (setActiveFiltersOptimized (Inl fs) before)))"
proof (intro conjI impI)
  assume "sortBy s \<noteq> sortBy before \<or> sortOrder s \<noteq> sortOrder before
      \<or> debouncedSearchTerm s \<noteq> debouncedSearchTerm before
      \<or> isSearchActive s \<noteq> isSearchActive before
      \<or> activeFilters s \<noteq> activeFilters before"
  then show runs: "reset_effect_runs before s"
    by (auto simp: reset_effect_runs_def reset_deps_def)
  then show "currentPage (reset_effect before s) = 0"
    and "\<not> allDataLoaded (reset_effect before s)"
    and "loading (reset_effect before s) = loading s"
    and "paginationLoading (reset_effect before s) = paginationLoading s"
    by (simp_all add: reset_effect_def resetPagination_def)
  from runs show "currentPage (run_effects e before s) = 0"
    by (simp add: run_effects_def fetch_effect_def reset_effect_def resetPagination_def Let_def)
next
  have "reset_effect_runs before (toggleSortOrder before)"
    by (simp add: reset_effect_runs_def reset_deps_def toggleSortOrder_def)
  then show "currentPage (reset_effect before (toggleSortOrder before)) = 0"
    and "\<not> allDataLoaded (reset_effect before (toggleSortOrder before))"
    by (simp_all add: reset_effect_def resetPagination_def)
next
  assume "fs \<noteq> activeFilters before"
  then have "reset_effect_runs before (setActiveFiltersOptimized (Inl fs) before)"
    by (simp add: reset_effect_runs_def reset_deps_def setActiveFiltersOptimized_def)
  then show "currentPage (reset_effect before (setActiveFiltersOptimized (Inl fs) before)) = 0"
    and "\<not> allDataLoaded (reset_effect before (setActiveFiltersOptimized (Inl fs) before))"
    by (simp_all add: reset_effect_def resetPagination_def)
qed

text \<open>
  The theorem of C7 on page 3 with a pagination fetch in flight: a new sort key, and a new
  filter list.
\<close>

theorem filter_change_resets_pagination_witness:
  "paginationLoading busy_page3 \<and> currentPage busy_page3 = 3 \<and> allDataLoaded busy_page3
   \<and> sortBy (setSortByOptimized ''name'' busy_page3) \<noteq> sortBy busy_page3
   \<and> currentPage (reset_effect busy_page3 (setSortByOptimized ''name'' busy_page3)) = 0
   \<and> \<not> allDataLoaded (reset_effect busy_page3 (setSortByOptimized ''name'' busy_page3))
   \<and> paginationLoading (reset_effect busy_page3 (setSortByOptimized ''name'' busy_page3))
   \<and> [''wedding''] \<noteq> activeFilters busy_page3
   \<and> currentPage (reset_effect busy_page3
         (setActiveFiltersOptimized (Inl [''wedding'']) busy_page3)) = 0"
proof -
  have cells: "paginationLoading busy_page3" "currentPage busy_page3 = 3"
    "allDataLoaded busy_page3" "sortBy busy_page3 = ''created_at''" "activeFilters busy_page3 = []"
    by (simp_all add: busy_page3_def scenario_start_def initial_state_def or_string_def)
  have new_key: "sortBy (setSortByOptimized ''name'' busy_page3) \<noteq> sortBy busy_page3"
    by (simp add: setSortByOptimized_def cells)
  have flag: "paginationLoading (setSortByOptimized ''name'' busy_page3)"
    by (simp add: setSortByOptimized_def cells)
  from filter_change_resets_pagination
         [of "setSortByOptimized ''name'' busy_page3" busy_page3 scenario_env "[''wedding'']"]
       new_key flag
  show ?thesis by (simp add: cells)
qed

text \<open>
  C10. If a realtime notification arrives while \<open>currentPage\<close> is already 0, the
  invalidation changes nothing but \<open>allDataLoaded\<close>, which it makes false: the row buffer
  is as before, neither the fetch effect nor the reset effect runs, and the renders come
  to rest at once, without a fetch.
\<close>

theorem realtime_on_page_zero:
  "currentPage s = 0 \<Longrightarrow>
     realtime_notification s = s\<lparr>allDataLoaded := False\<rparr>
     \<and> data (realtime_notification s) = data s
     \<and> \<not> fetch_effect_runs s (realtime_notification s)
     \<and> \<not> reset_effect_runs s (realtime_notification s)
     \<and> settle (Suc n) e s (realtime_notification s) = Some (s\<lparr>allDataLoaded := False\<rparr>)"
  by (simp add: realtime_notification_def resetPagination_def fetch_effect_runs_def
      fetch_effect_deps_def fetchData_deps_def reset_effect_runs_def reset_deps_def)

text \<open>
  The theorem of C10 on page 0 with everything loaded: after the notification the 20 rows
  are still shown, the flag is false, and nothing is fetched.
\<close>

theorem realtime_on_page_zero_witness:
  "currentPage short_page0 = 0 \<and> allDataLoaded short_page0
   \<and> data (realtime_notification short_page0) = [0..<20]
   \<and> \<not> allDataLoaded (realtime_notification short_page0)
   \<and> \<not> fetch_effect_runs short_page0 (realtime_notification short_page0)
   \<and> settle 1 scenario_env short_page0 (realtime_notification short_page0)
       = Some (short_page0\<lparr>allDataLoaded := False\<rparr>)"
proof -
  have cells: "currentPage short_page0 = 0" "allDataLoaded short_page0"
    "data short_page0 = [0..<20]"
    by (simp_all add: short_page0_def start_cells)
  from realtime_on_page_zero [of short_page0 0 scenario_env] cells
  show ?thesis by auto
qed

section \<open>Properties of the query translator\<close>

subsection \<open>Auxiliary facts\<close>




















lemma replace_punct_clean:
  "CHR '','' \<notin> set (replace_punct t)" "CHR ''('' \<notin> set (replace_punct t)"
  "CHR '')'' \<notin> set (replace_punct t)"
  by (auto simp: replace_punct_def)














































subsection \<open>Filters with a static mapping\<close>




subsection \<open>Search\<close>

text \<open>
  C6, as the code has it. For every search term, the sanitized term substituted into the
  search clause contains no comma and no parenthesis: the term is trimmed, then each of the
  three characters is replaced by a space, so \<^verbatim>\<open>"John, (Doe)"\<close> becomes
  \<^verbatim>\<open>"John   Doe "\<close> (three spaces between the words and one after). The search
  clauses are composed for every term, and a fetch whose lookup and query the backend
  answers does not fail.
\<close>

theorem search_term_sanitized:
  "CHR '','' \<notin> set (safeTerm t) \<and> CHR ''('' \<notin> set (safeTerm t) \<and> CHR '')'' \<notin> set (safeTerm t)
   \<and> safeTerm t = map (\<lambda>c. if c \<in> set '',()'' then CHR '' '' else c) (trim t)
   \<and> safeTerm ''John, (Doe)'' = ''John   Doe ''
   \<and> search_clauses cfg active t =
       (if active \<and> trim t \<noteq> [] then
          (if searchFields cfg \<noteq> []
           then [Q_or (join '','' (map (\<lambda>field. field @ ''.ilike.%'' @ safeTerm t @ ''%'')
                   (searchFields cfg)))]
           else [])
          @ (if tableName cfg = ''events'' \<or> tableName cfg = ''quotations''
             then [Q_or_foreign (''name.ilike.%'' @ safeTerm t @ ''%'') ''clients''] else [])
        else [])
   \<and> (eventIdsFilter (config e) firm (lookup e) (activeFilters c) = Inr ids
        \<and> backend e (build_query (config e) (profile e) firm (today e) ids c) = Inr (result, count)
      \<longrightarrow> run_fetch e firm c = Fetched result count)"
proof (intro conjI impI)
  show "CHR '','' \<notin> set (safeTerm t)" "CHR ''('' \<notin> set (safeTerm t)"
    "CHR '')'' \<notin> set (safeTerm t)"
    by (simp_all add: safeTerm_def replace_punct_clean)
  show "safeTerm t = map (\<lambda>c. if c \<in> set '',()'' then CHR '' '' else c) (trim t)"
    by (simp add: safeTerm_def replace_punct_def)
  show "safeTerm ''John, (Doe)'' = ''John   Doe ''"
    by (simp add: safeTerm_def replace_punct_def trim_def is_space_def)
  show "search_clauses cfg active t =
       (if active \<and> trim t \<noteq> [] then
          (if searchFields cfg \<noteq> []
           then [Q_or (join '','' (map (\<lambda>field. field @ ''.ilike.%'' @ safeTerm t @ ''%'')
                   (searchFields cfg)))]
           else [])
          @ (if tableName cfg = ''events'' \<or> tableName cfg = ''quotations''
             then [Q_or_foreign (''name.ilike.%'' @ safeTerm t @ ''%'') ''clients''] else [])
        else [])"
    by (simp add: search_clauses_def baseFields_def truthy_def)
next
  assume "eventIdsFilter (config e) firm (lookup e) (activeFilters c) = Inr ids
        \<and> backend e (build_query (config e) (profile e) firm (today e) ids c) = Inr (result, count)"
  then show "run_fetch e firm c = Fetched result count"
    by (simp add: run_fetch_def)
qed

text \<open>
  The theorem of C6 on the table of 120 rows: the search for \<^verbatim>\<open>"John, (Doe)"\<close> in the
  column \<open>name\<close> composes one clause and is answered.
\<close>

theorem search_term_sanitized_witness:
  "search_clauses scenario_config True ''John, (Doe)'' = [Q_or ''name.ilike.%John   Doe %'']
   \<and> eventIdsFilter (config scenario_env) ''firm-1'' (lookup scenario_env)
        (activeFilters search_state) = Inr None
   \<and> backend scenario_env (build_query (config scenario_env) (profile scenario_env) ''firm-1''
        (today scenario_env) None search_state) = Inr (Some [0..<50], Some 120)
   \<and> run_fetch scenario_env ''firm-1'' search_state = Fetched (Some [0..<50]) (Some 120)"
proof -
  have sanitized: "safeTerm ''John, (Doe)'' = ''John   Doe ''"
    by (simp add: safeTerm_def replace_punct_def trim_def is_space_def)
  have trimmed: "trim ''John, (Doe)'' \<noteq> []"
    by (simp add: trim_def is_space_def)
  have ids: "eventIdsFilter (config scenario_env) ''firm-1'' (lookup scenario_env)
        (activeFilters search_state) = Inr None"
    by (simp add: eventIdsFilter_def scenario_table)
  have cells: "currentPage search_state = 0" "pageSize search_state = 50"
    by (simp_all add: search_state_def start_cells)
  have answer: "backend scenario_env (build_query (config scenario_env) (profile scenario_env)
        ''firm-1'' (today scenario_env) None search_state) = Inr (Some [0..<50], Some 120)"
    by (simp add: scenario_env_def table_backend_def range_of_build_query cells)
  from search_term_sanitized
         [of "''John, (Doe)''" scenario_config True scenario_env "''firm-1''" search_state None
             "Some [0..<50]" "Some 120"]
       ids answer trimmed
  show ?thesis by (simp add: sanitized scenario_config_def)
qed

text \<open>
  C6 as stated fails in its example: the sanitized \<^verbatim>\<open>"John, (Doe)"\<close> is not
  \<^verbatim>\<open>"John  Doe"\<close>.
\<close>

theorem sanitized_example_differs:
  "safeTerm ''John, (Doe)'' \<noteq> ''John  Doe'' \<and> length (safeTerm ''John, (Doe)'') = 11"
  by (simp add: safeTerm_def replace_punct_def trim_def is_space_def)

subsection \<open>Quotations\<close>




subsection \<open>The scope of a user who is not an administrator\<close>



end
